theory Spec2Isabelle
  imports Complex_Main
begin

section \<open>Python values\<close>

text \<open>
  A Python \<open>str\<close> is a sequence of Unicode code points: \<open>len\<close> counts code points and
  slicing cuts between them. A code point is a natural number; a literal of the source is
  written with \<open>ustr\<close>.
\<close>

type_synonym pystr = "nat list"

definition ustr :: "string \<Rightarrow> pystr" where
  "ustr s = map of_char s"

text \<open>
  A Python \<open>float\<close>: its exact value when finite, or one of the three special values that
  \<open>json.loads\<close> accepts as \<open>Infinity\<close>, \<open>-Infinity\<close> and \<open>NaN\<close>.
\<close>

datatype pyfloat = Finite rat | PosInf | NegInf | NaN

text \<open>
  What \<open>request.get_json()\<close> and \<open>json.loads\<close> return: \<open>None\<close>, \<open>bool\<close>, \<open>int\<close>,
  \<open>float\<close>, \<open>str\<close>, \<open>list\<close> or \<open>dict\<close>. A \<open>dict\<close> is an association list read with
  \<open>map_of\<close>. The metadata row of \<open>process_file\<close> is a \<open>dict\<close> of the same kind.
\<close>

datatype json =
    JNull
  | JBool bool
  | JInt int
  | JFloat pyfloat
  | JStr pystr
  | JList "json list"
  | JDict "(pystr \<times> json) list"

text \<open>Python's truth value of an object, as \<open>not x\<close> and \<open>if x:\<close> test it.\<close>

fun truthy :: "json \<Rightarrow> bool" where
  "truthy JNull = False"
| "truthy (JBool b) = b"
| "truthy (JInt i) = (i \<noteq> 0)"
| "truthy (JFloat f) = (f \<noteq> Finite 0)"
| "truthy (JStr s) = (s \<noteq> [])"
| "truthy (JList xs) = (xs \<noteq> [])"
| "truthy (JDict kvs) = (kvs \<noteq> [])"

text \<open>\<open>isinstance(x, dict)\<close>.\<close>

fun isinstance_dict :: "json \<Rightarrow> bool" where
  "isinstance_dict (JDict kvs) = True"
| "isinstance_dict _ = False"

text \<open>The name of the class of a value, as it appears in the messages of the interpreter.\<close>

fun type_name :: "json \<Rightarrow> string" where
  "type_name JNull = ''NoneType''"
| "type_name (JBool b) = ''bool''"
| "type_name (JInt i) = ''int''"
| "type_name (JFloat f) = ''float''"
| "type_name (JStr s) = ''str''"
| "type_name (JList xs) = ''list''"
| "type_name (JDict kvs) = ''dict''"

text \<open>
  An exception object: the name of its class and what \<open>str(e)\<close> gives. Every exception of
  the model is an instance of \<open>Exception\<close>, which is what \<open>except Exception\<close> catches.
\<close>

datatype exn = Raised (exn_class: string) (exn_str: pystr)

text \<open>
  \<open>key in d\<close> for a \<open>dict\<close> \<open>d\<close>; the source guards each test with \<open>isinstance(d, dict)\<close>,
  so the other classes are not read.
\<close>

fun py_in :: "pystr \<Rightarrow> json \<Rightarrow> bool" where
  "py_in k (JDict kvs) = (map_of kvs k \<noteq> None)"
| "py_in k _ = False"

text \<open>A name between apostrophes (code point 39), as the interpreter quotes it.\<close>

definition quoted :: "string \<Rightarrow> pystr" where
  "quoted s = 39 # ustr s @ [39]"

text \<open>
  \<open>x[key]\<close> with a \<open>str\<close> key: on a \<open>dict\<close> the value, a missing key raises \<open>KeyError\<close>;
  the other classes raise \<open>TypeError\<close>.
\<close>

fun py_getitem :: "json \<Rightarrow> pystr \<Rightarrow> exn + json" where
  "py_getitem (JDict kvs) k =
     (case map_of kvs k of
        None \<Rightarrow> Inl (Raised ''KeyError'' (39 # k @ [39]))
      | Some v \<Rightarrow> Inr v)"
| "py_getitem (JStr s) k =
     Inl (Raised ''TypeError'' (ustr ''string indices must be integers, not '' @ quoted ''str''))"
| "py_getitem (JList xs) k =
     Inl (Raised ''TypeError'' (ustr ''list indices must be integers or slices, not str''))"
| "py_getitem v k =
     Inl (Raised ''TypeError'' (quoted (type_name v) @ ustr '' object is not subscriptable''))"

text \<open>
  \<open>x.get(key)\<close>: on a \<open>dict\<close> the value, or \<open>None\<close> when the key is missing; no other
  class of JSON value has an attribute \<open>get\<close>, and the attribute access raises
  \<open>AttributeError\<close>.
\<close>

fun py_get :: "json \<Rightarrow> pystr \<Rightarrow> exn + json" where
  "py_get (JDict kvs) k =
     (case map_of kvs k of None \<Rightarrow> Inr JNull | Some v \<Rightarrow> Inr v)"
| "py_get v k =
     Inl (Raised ''AttributeError''
            (quoted (type_name v) @ ustr '' object has no attribute '' @ quoted ''get''))"

section \<open>Text\<close>

text \<open>
  The code points that \<open>str.split()\<close> and \<open>str.strip()\<close> treat as whitespace
  (\<open>str.isspace\<close>).
\<close>

definition is_space :: "nat \<Rightarrow> bool" where
  "is_space c \<longleftrightarrow>
     (9 \<le> c \<and> c \<le> 13) \<or> (28 \<le> c \<and> c \<le> 32) \<or> c = 133 \<or> c = 160 \<or> c = 5760 \<or>
     (8192 \<le> c \<and> c \<le> 8202) \<or> c = 8232 \<or> c = 8233 \<or> c = 8239 \<or> c = 8287 \<or> c = 12288"

text \<open>
  \<open>content.split()\<close>: one pass over the text; \<open>cur\<close> is the token being read. Whitespace
  closes a token that has started and is skipped otherwise; the end of the text closes the
  last token.
\<close>

fun split_from :: "pystr \<Rightarrow> pystr \<Rightarrow> pystr list" where
  "split_from cur [] = (if cur = [] then [] else [cur])"
| "split_from cur (c # cs) =
     (if is_space c then (if cur = [] then split_from [] cs else cur # split_from [] cs)
      else split_from (cur @ [c]) cs)"

definition py_split :: "pystr \<Rightarrow> pystr list" where
  "py_split content = split_from [] content"

text \<open>\<open>s.strip()\<close>: whitespace removed at both ends.\<close>

definition py_strip :: "pystr \<Rightarrow> pystr" where
  "py_strip s = rev (dropWhile is_space (rev (dropWhile is_space s)))"

text \<open>\<open>len(x)\<close> is a Python \<open>int\<close>.\<close>

definition len :: "'a list \<Rightarrow> int" where
  "len xs = int (length xs)"

section \<open>The services and the effects\<close>

text \<open>
  The handler calls the standard library (\<open>base64.b64decode\<close>, \<open>bytes.decode\<close>,
  \<open>json.loads\<close>, \<open>str()\<close> inside the f-strings), the object store, the warehouse and
  the clock. Each is a field of the environment: a call either raises (\<open>Inl\<close>) or returns
  (\<open>Inr\<close>). The module constants \<open>BQ_DATASET\<close> and \<open>BQ_TABLE\<close> are read from the process
  environment when the module is loaded.
\<close>

type_synonym byte = nat

record env =
  b64decode :: "json \<Rightarrow> exn + byte list"
  decode_utf8 :: "byte list \<Rightarrow> exn + pystr"
  json_loads :: "pystr \<Rightarrow> exn + json"
  str_of :: "json \<Rightarrow> pystr"
  download_as_text :: "json \<Rightarrow> json \<Rightarrow> exn + pystr"
  insert_rows_json :: "pystr \<Rightarrow> json list \<Rightarrow> exn + json list"
  utcnow_isoformat :: pystr
  bq_project :: pystr
  BQ_DATASET :: pystr
  BQ_TABLE :: pystr

text \<open>
  What a request does to the outside, in order: a line on standard output, a line of the
  logger, a download from the object store, a streaming insert into the warehouse.
\<close>

datatype level = INFO | WARNING | ERROR

datatype effect =
    Print pystr
  | Log level pystr
  | Download json json
  | InsertRows pystr "json list"

text \<open>The downloads and the inserts of a trace.\<close>

fun downloads :: "effect list \<Rightarrow> (json \<times> json) list" where
  "downloads [] = []"
| "downloads (Download b n # tr) = (b, n) # downloads tr"
| "downloads (_ # tr) = downloads tr"

fun inserts :: "effect list \<Rightarrow> (pystr \<times> json list) list" where
  "inserts [] = []"
| "inserts (InsertRows t rows # tr) = (t, rows) # inserts tr"
| "inserts (_ # tr) = inserts tr"

text \<open>A response of the handler: the body and the status.\<close>

type_synonym response = "pystr \<times> int"

section \<open>The program\<close>

text \<open>
  \<open>insert_into_bigquery(row)\<close>: one call of \<open>insert_rows_json\<close> on the table
  \<open>table_id\<close> with the one row. The call may raise; when it returns a list of errors that
  is not empty, the function logs it and raises \<open>Exception\<close>.
\<close>

definition table_id :: "env \<Rightarrow> pystr" where
  "table_id env = bq_project env @ ustr ''.'' @ BQ_DATASET env @ ustr ''.'' @ BQ_TABLE env"

definition insert_into_bigquery :: "env \<Rightarrow> json \<Rightarrow> (exn + unit) \<times> effect list" where
  "insert_into_bigquery env row =
     (case insert_rows_json env (table_id env) [row] of
        Inl e \<Rightarrow> (Inl e, [InsertRows (table_id env) [row]])
      | Inr errors \<Rightarrow>
          if errors \<noteq> [] then
            (Inl (Raised ''Exception''
                    (ustr ''BigQuery insert failed: '' @ str_of env (JList errors))),
             [InsertRows (table_id env) [row],
              Log ERROR (ustr ''Encountered errors while inserting rows: ''
                         @ str_of env (JList errors))])
          else
            (Inr (),
             [InsertRows (table_id env) [row],
              Log INFO (ustr ''Successfully inserted row into BigQuery.'')]))"

text \<open>
  The metadata \<open>dict\<close> that \<open>process_file\<close> builds from the name of the file, the text and
  the clock (lines 73 to 83 of the source).
\<close>

definition metadata :: "json \<Rightarrow> pystr \<Rightarrow> pystr \<Rightarrow> json" where
  "metadata file_name now content =
     (let word_count = len (py_split content)
      in JDict
           [(ustr ''filename'', file_name),
            (ustr ''upload_timestamp'', JStr now),
            (ustr ''word_count'', JInt word_count),
            (ustr ''content_snippet'',
               JStr (if len content > 100 then take 100 content else content)),
            (ustr ''tags'', JList [JStr (ustr ''simulated''), JStr (ustr ''ocr''),
                                   JStr (ustr ''processed'')])])"

text \<open>The body of the \<open>try\<close> of \<open>process_file\<close>.\<close>

definition process_file_try :: "env \<Rightarrow> json \<Rightarrow> json \<Rightarrow> (exn + unit) \<times> effect list" where
  "process_file_try env bucket_name file_name =
     (case download_as_text env bucket_name file_name of
        Inl e \<Rightarrow> (Inl e, [Download bucket_name file_name])
      | Inr content \<Rightarrow>
          (let row = metadata file_name (utcnow_isoformat env) content;
               (r, tr) = insert_into_bigquery env row
           in (r, [Download bucket_name file_name,
                   Log INFO (ustr ''Extracted metadata: '' @ str_of env row)] @ tr)))"

text \<open>\<open>process_file\<close>: an exception of the body is logged and raised again.\<close>

definition process_file :: "env \<Rightarrow> json \<Rightarrow> json \<Rightarrow> (exn + unit) \<times> effect list" where
  "process_file env bucket_name file_name =
     (case process_file_try env bucket_name file_name of
        (Inl e, tr) \<Rightarrow>
          (Inl e, tr @ [Log ERROR (ustr ''Failed to process file '' @ str_of env file_name
                                   @ ustr '': '' @ exn_str e)])
      | (Inr u, tr) \<Rightarrow> (Inr u, tr))"

text \<open>
  The body of the \<open>try\<close> of \<open>index\<close>. It raises (\<open>Inl\<close>), returns a response from inside
  the \<open>try\<close> (\<open>Inr (Some r)\<close>), or runs to its end (\<open>Inr None\<close>).
\<close>

definition index_try :: "env \<Rightarrow> json \<Rightarrow> (exn + response option) \<times> effect list" where
  "index_try env pubsub_message =
     (case py_getitem pubsub_message (ustr ''data'') of
        Inl e \<Rightarrow> (Inl e, [])
      | Inr d \<Rightarrow>
     (case b64decode env d of
        Inl e \<Rightarrow> (Inl e, [])
      | Inr raw \<Rightarrow>
     (case decode_utf8 env raw of
        Inl e \<Rightarrow> (Inl e, [])
      | Inr text \<Rightarrow>
     (let data = py_strip text
      in case json_loads env data of
        Inl e \<Rightarrow> (Inl e, [])
      | Inr event_data \<Rightarrow>
     (case py_get event_data (ustr ''bucket'') of
        Inl e \<Rightarrow> (Inl e, [])
      | Inr bucket_name \<Rightarrow>
     (case py_get event_data (ustr ''name'') of
        Inl e \<Rightarrow> (Inl e, [])
      | Inr file_name \<Rightarrow>
          if \<not> truthy bucket_name \<or> \<not> truthy file_name then
            (Inr (Some (ustr ''OK'', 200)),
             [Log WARNING (ustr ''Bucket or filename missing in event data.'')])
          else
            (let l = Log INFO (ustr ''Processing file: '' @ str_of env file_name
                               @ ustr '' from bucket: '' @ str_of env bucket_name)
             in case process_file env bucket_name file_name of
                  (Inl e, tr) \<Rightarrow> (Inl e, l # tr)
                | (Inr u, tr) \<Rightarrow> (Inr None, l # tr))))))))"

text \<open>
  \<open>index\<close>, the handler of \<open>POST /\<close>, on the value \<open>envelope\<close> that \<open>request.get_json()\<close>
  returned. The result is \<open>Inr\<close> of the response, or \<open>Inl\<close> of an exception that leaves the
  handler.
\<close>

definition index :: "env \<Rightarrow> json \<Rightarrow> (exn + response) \<times> effect list" where
  "index env envelope =
     (if \<not> truthy envelope then
        (let msg = ustr ''no Pub/Sub message received''
         in (Inr (ustr ''Bad Request: '' @ msg, 400), [Print (ustr ''error: '' @ msg)]))
      else if \<not> isinstance_dict envelope \<or> \<not> py_in (ustr ''message'') envelope then
        (let msg = ustr ''invalid Pub/Sub message format''
         in (Inr (ustr ''Bad Request: '' @ msg, 400), [Print (ustr ''error: '' @ msg)]))
      else
        (case py_getitem envelope (ustr ''message'') of
           Inl e \<Rightarrow> (Inl e, [])
         | Inr pubsub_message \<Rightarrow>
             if isinstance_dict pubsub_message \<and> py_in (ustr ''data'') pubsub_message then
               (case index_try env pubsub_message of
                  (Inl e, tr) \<Rightarrow>
                    (Inr (ustr ''Error: '' @ exn_str e, 500),
                     tr @ [Log ERROR (ustr ''Error processing message: '' @ exn_str e)])
                | (Inr (Some r), tr) \<Rightarrow> (Inr r, tr)
                | (Inr None, tr) \<Rightarrow> (Inr (ustr ''OK'', 200), tr))
             else (Inr (ustr ''OK'', 200), [])))"

section \<open>Whitespace-separated tokens\<close>

text \<open>
  The words of the specification, to compare \<open>py_split\<close> with: a token starts at a
  position that holds no whitespace and is the first of the text or follows whitespace, and
  it extends over the code points up to the next whitespace or the end of the text.
\<close>

definition token_starts :: "pystr \<Rightarrow> nat list" where
  "token_starts s =
     filter (\<lambda>i. \<not> is_space (s ! i) \<and> (i = 0 \<or> is_space (s ! (i - 1)))) [0..<length s]"

definition whitespace_separated_tokens :: "pystr \<Rightarrow> pystr list" where
  "whitespace_separated_tokens s =
     map (\<lambda>i. takeWhile (\<lambda>c. \<not> is_space c) (drop i s)) (token_starts s)"

text \<open>
  The same tokens when the text is the rest of a longer one: \<open>p\<close> tells whether a token
  may start at position 0, that is whether whitespace or nothing comes before.
\<close>

definition tokens_after :: "bool \<Rightarrow> pystr \<Rightarrow> pystr list" where
  "tokens_after p s =
     map (\<lambda>i. takeWhile (\<lambda>c. \<not> is_space c) (drop i s))
       (filter (\<lambda>i. \<not> is_space (s ! i) \<and> (if i = 0 then p else is_space (s ! (i - 1))))
          [0..<length s])"

section \<open>A sample environment\<close>

text \<open>
  The closed theorems evaluate the handler in a sample environment. Its decoders read
  canonical base64 (the standard alphabet, padded to a multiple of four), strict UTF-8,
  and JSON texts made of objects, arrays, strings with the two-character escapes, integers
  and the three literals. Everything else they refuse; the library accepts more, and the
  messages of the exceptions of the sample environment are its own. The theorems about
  every environment do not use these definitions.
\<close>

definition b64_value :: "nat \<Rightarrow> nat option" where
  "b64_value c =
     (if 65 \<le> c \<and> c \<le> 90 then Some (c - 65)
      else if 97 \<le> c \<and> c \<le> 122 then Some (c - 71)
      else if 48 \<le> c \<and> c \<le> 57 then Some (c + 4)
      else if c = 43 then Some 62
      else if c = 47 then Some 63
      else None)"

fun ref_b64decode :: "pystr \<Rightarrow> byte list option" where
  "ref_b64decode [] = Some []"
| "ref_b64decode (a # b # c # d # rest) =
     (case (b64_value a, b64_value b) of
        (Some w, Some x) \<Rightarrow>
          if rest = [] \<and> c = 61 \<and> d = 61 then Some [w * 4 + x div 16]
          else (case b64_value c of
                  None \<Rightarrow> None
                | Some y \<Rightarrow>
                    if rest = [] \<and> d = 61 then
                      Some [w * 4 + x div 16, (x mod 16) * 16 + y div 4]
                    else (case (b64_value d, ref_b64decode rest) of
                            (Some z, Some bs) \<Rightarrow>
                              Some ([w * 4 + x div 16, (x mod 16) * 16 + y div 4,
                                     (y mod 4) * 64 + z] @ bs)
                          | _ \<Rightarrow> None))
      | _ \<Rightarrow> None)"
| "ref_b64decode _ = None"

definition continuation :: "byte \<Rightarrow> bool" where
  "continuation b \<longleftrightarrow> 128 \<le> b \<and> b < 192"

fun ref_utf8_decode :: "byte list \<Rightarrow> pystr option" where
  "ref_utf8_decode [] = Some []"
| "ref_utf8_decode (b0 # bs) =
     (if b0 < 128 then map_option ((#) b0) (ref_utf8_decode bs)
      else if 194 \<le> b0 \<and> b0 < 224 then
        (case bs of
           b1 # r \<Rightarrow>
             if continuation b1
             then map_option ((#) ((b0 - 192) * 64 + (b1 - 128))) (ref_utf8_decode r)
             else None
         | _ \<Rightarrow> None)
      else if 224 \<le> b0 \<and> b0 < 240 then
        (case bs of
           b1 # b2 # r \<Rightarrow>
             (let cp = (b0 - 224) * 4096 + (b1 - 128) * 64 + (b2 - 128)
              in if continuation b1 \<and> continuation b2 \<and> 2048 \<le> cp
                    \<and> \<not> (55296 \<le> cp \<and> cp \<le> 57343)
                 then map_option ((#) cp) (ref_utf8_decode r)
                 else None)
         | _ \<Rightarrow> None)
      else if 240 \<le> b0 \<and> b0 < 245 then
        (case bs of
           b1 # b2 # b3 # r \<Rightarrow>
             (let cp = (b0 - 240) * 262144 + (b1 - 128) * 4096 + (b2 - 128) * 64 + (b3 - 128)
              in if continuation b1 \<and> continuation b2 \<and> continuation b3
                    \<and> 65536 \<le> cp \<and> cp \<le> 1114111
                 then map_option ((#) cp) (ref_utf8_decode r)
                 else None)
         | _ \<Rightarrow> None)
      else None)"


definition json_ws :: "nat \<Rightarrow> bool" where
  "json_ws c \<longleftrightarrow> c = 32 \<or> c = 9 \<or> c = 10 \<or> c = 13"

definition skip_ws :: "pystr \<Rightarrow> pystr" where
  "skip_ws s = dropWhile json_ws s"

definition unescape :: "nat \<Rightarrow> nat option" where
  "unescape c =
     (if c = 34 \<or> c = 92 \<or> c = 47 then Some c
      else if c = 98 then Some 8
      else if c = 102 then Some 12
      else if c = 110 then Some 10
      else if c = 114 then Some 13
      else if c = 116 then Some 9
      else None)"

fun scan_string :: "pystr \<Rightarrow> pystr \<Rightarrow> (pystr \<times> pystr) option" where
  "scan_string acc [] = None"
| "scan_string acc (c # cs) =
     (if c = 34 then Some (acc, cs)
      else if c = 92 then
        (case cs of
           [] \<Rightarrow> None
         | e # r \<Rightarrow>
             (case unescape e of
                None \<Rightarrow> None
              | Some x \<Rightarrow> scan_string (acc @ [x]) r))
      else if c < 32 then None
      else scan_string (acc @ [c]) cs)"

definition is_digit :: "nat \<Rightarrow> bool" where
  "is_digit c \<longleftrightarrow> 48 \<le> c \<and> c \<le> 57"

definition digits_value :: "pystr \<Rightarrow> int" where
  "digits_value ds = foldl (\<lambda>a d. 10 * a + int (d - 48)) 0 ds"

definition scan_unsigned :: "pystr \<Rightarrow> (int \<times> pystr) option" where
  "scan_unsigned s =
     (let ds = takeWhile is_digit s; r = dropWhile is_digit s
      in if ds = [] \<or> (ds \<noteq> [48] \<and> take 1 ds = [48]) then None
         else if r \<noteq> [] \<and> (take 1 r = [46] \<or> take 1 r = [101] \<or> take 1 r = [69]) then None
         else Some (digits_value ds, r))"

definition scan_int :: "pystr \<Rightarrow> (int \<times> pystr) option" where
  "scan_int s =
     (case s of
        [] \<Rightarrow> None
      | c # cs \<Rightarrow>
          if c = 45 then map_option (\<lambda>(i, r). (- i, r)) (scan_unsigned cs)
          else scan_unsigned s)"

fun strip_prefix :: "pystr \<Rightarrow> pystr \<Rightarrow> pystr option" where
  "strip_prefix [] s = Some s"
| "strip_prefix (p # ps) [] = None"
| "strip_prefix (p # ps) (c # cs) = (if p = c then strip_prefix ps cs else None)"

fun dict_set :: "(pystr \<times> json) list \<Rightarrow> pystr \<Rightarrow> json \<Rightarrow> (pystr \<times> json) list" where
  "dict_set [] k v = [(k, v)]"
| "dict_set ((k', v') # kvs) k v =
     (if k' = k then (k, v) # kvs else (k', v') # dict_set kvs k v)"

fun parse_value :: "nat \<Rightarrow> pystr \<Rightarrow> (json \<times> pystr) option"
  and parse_array :: "nat \<Rightarrow> json list \<Rightarrow> pystr \<Rightarrow> (json \<times> pystr) option"
  and parse_object :: "nat \<Rightarrow> (pystr \<times> json) list \<Rightarrow> pystr \<Rightarrow> (json \<times> pystr) option"
where
  "parse_value 0 s = None"
| "parse_value (Suc n) [] = None"
| "parse_value (Suc n) (c # cs) =
     (if c = 34 then map_option (\<lambda>(t, r). (JStr t, r)) (scan_string [] cs)
      else if c = 123 then
        (case skip_ws cs of
           [] \<Rightarrow> None
         | d # r \<Rightarrow> if d = 125 then Some (JDict [], r) else parse_object n [] (d # r))
      else if c = 91 then
        (case skip_ws cs of
           [] \<Rightarrow> None
         | d # r \<Rightarrow> if d = 93 then Some (JList [], r) else parse_array n [] (d # r))
      else
        (case strip_prefix (ustr ''null'') (c # cs) of
           Some r \<Rightarrow> Some (JNull, r)
         | None \<Rightarrow>
        (case strip_prefix (ustr ''true'') (c # cs) of
           Some r \<Rightarrow> Some (JBool True, r)
         | None \<Rightarrow>
        (case strip_prefix (ustr ''false'') (c # cs) of
           Some r \<Rightarrow> Some (JBool False, r)
         | None \<Rightarrow> map_option (\<lambda>(i, r). (JInt i, r)) (scan_int (c # cs))))))"
| "parse_array 0 acc s = None"
| "parse_array (Suc n) acc s =
     (case parse_value n s of
        None \<Rightarrow> None
      | Some (v, r) \<Rightarrow>
          (case skip_ws r of
             [] \<Rightarrow> None
           | d # r' \<Rightarrow>
               if d = 44 then parse_array n (acc @ [v]) (skip_ws r')
               else if d = 93 then Some (JList (acc @ [v]), r')
               else None))"
| "parse_object 0 acc s = None"
| "parse_object (Suc n) acc s =
     (case s of
        [] \<Rightarrow> None
      | q # r0 \<Rightarrow>
          if q \<noteq> 34 then None
          else
            (case scan_string [] r0 of
               None \<Rightarrow> None
             | Some (k, r1) \<Rightarrow>
                 (case skip_ws r1 of
                    [] \<Rightarrow> None
                  | colon # r2 \<Rightarrow>
                      if colon \<noteq> 58 then None
                      else
                        (case parse_value n (skip_ws r2) of
                           None \<Rightarrow> None
                         | Some (v, r3) \<Rightarrow>
                             (case skip_ws r3 of
                                [] \<Rightarrow> None
                              | d # r4 \<Rightarrow>
                                  if d = 44 then parse_object n (dict_set acc k v) (skip_ws r4)
                                  else if d = 125 then Some (JDict (dict_set acc k v), r4)
                                  else None)))))"

definition ref_json_loads :: "pystr \<Rightarrow> json option" where
  "ref_json_loads s =
     (case parse_value (Suc (length s)) (skip_ws s) of
        None \<Rightarrow> None
      | Some (v, r) \<Rightarrow> if skip_ws r = [] then Some v else None)"

text \<open>The rendering of the sample environment: a \<open>str\<close> is itself.\<close>

definition sample_str :: "json \<Rightarrow> pystr" where
  "sample_str v = (case v of JStr s \<Rightarrow> s | _ \<Rightarrow> ustr ''<'' @ ustr (type_name v) @ ustr ''>'')"

text \<open>
  The sample environment with the objects \<open>objects\<close> in the store, indexed by bucket and
  name, and a warehouse that answers every insert with \<open>insert_result\<close>.
\<close>

definition sample_env :: "((json \<times> json) \<times> pystr) list \<Rightarrow> exn + json list \<Rightarrow> env" where
  "sample_env objects insert_result =
     \<lparr> b64decode = (\<lambda>d. case d of
          JStr s \<Rightarrow>
            (case ref_b64decode s of
               Some raw \<Rightarrow> Inr raw
             | None \<Rightarrow> Inl (Raised ''binascii.Error'' (ustr ''Incorrect padding'')))
        | _ \<Rightarrow> Inl (Raised ''TypeError'' (ustr ''argument should be a bytes-like object or ASCII string''))),
       decode_utf8 = (\<lambda>raw. case ref_utf8_decode raw of
          Some text \<Rightarrow> Inr text
        | None \<Rightarrow> Inl (Raised ''UnicodeDecodeError'' (ustr ''invalid utf-8''))),
       json_loads = (\<lambda>s. case ref_json_loads s of
          Some v \<Rightarrow> Inr v
        | None \<Rightarrow> Inl (Raised ''JSONDecodeError'' (ustr ''Expecting value''))),
       str_of = sample_str,
       download_as_text = (\<lambda>b n. case map_of objects (b, n) of
          Some text \<Rightarrow> Inr text
        | None \<Rightarrow> Inl (Raised ''NotFound'' (ustr ''404 No such object''))),
       insert_rows_json = (\<lambda>t rows. insert_result),
       utcnow_isoformat = ustr ''2024-05-01T12:00:00'',
       bq_project = ustr ''demo'',
       BQ_DATASET = ustr ''doc_processing'',
       BQ_TABLE = ustr ''metadata'' \<rparr>"

text \<open>
  The scenario of the specification: the payload of the storage event, the envelope that
  carries it in base64, and the row expected for the text \<open>hello world\<close>.
\<close>

definition scenario_payload :: pystr where
  \<open>scenario_payload = ustr ''{"bucket":"b1","name":"f1.txt"}''\<close>

definition scenario_envelope :: json where
  "scenario_envelope =
     JDict [(ustr ''message'',
             JDict [(ustr ''data'', JStr (ustr ''eyJidWNrZXQiOiJiMSIsIm5hbWUiOiJmMS50eHQifQ==''))])]"

definition scenario_row :: "pystr \<Rightarrow> json" where
  "scenario_row now =
     JDict
       [(ustr ''filename'', JStr (ustr ''f1.txt'')),
        (ustr ''upload_timestamp'', JStr now),
        (ustr ''word_count'', JInt 2),
        (ustr ''content_snippet'', JStr (ustr ''hello world'')),
        (ustr ''tags'', JList [JStr (ustr ''simulated''), JStr (ustr ''ocr''),
                               JStr (ustr ''processed'')])]"

text \<open>The envelope whose message carries the string \<open>s\<close> as its data.\<close>

definition envelope_of :: "string \<Rightarrow> json" where
  "envelope_of s = JDict [(ustr ''message'', JDict [(ustr ''data'', JStr (ustr s))])]"

text \<open>The store of the scenario: one object, \<open>f1.txt\<close> in the bucket \<open>b1\<close>.\<close>

definition scenario_objects :: "((json \<times> json) \<times> pystr) list" where
  "scenario_objects = [((JStr (ustr ''b1''), JStr (ustr ''f1.txt'')), ustr ''hello world'')]"

section \<open>Lemmas\<close>

lemma ustr_eq_iff [simp]: "ustr a = ustr b \<longleftrightarrow> a = b"
  unfolding ustr_def by (simp add: inj_map_eq_map inj_of_char)

lemma length_ustr [simp]: "length (ustr s) = length s"
  by (simp add: ustr_def)

text \<open>The handler on an envelope whose message is a \<open>dict\<close> with a key \<open>data\<close>.\<close>

lemma index_with_data:
  assumes "map_of kvs (ustr ''message'') = Some (JDict fs)"
      and "map_of fs (ustr ''data'') = Some d"
  shows "index env (JDict kvs) =
     (case index_try env (JDict fs) of
        (Inl e, tr) \<Rightarrow>
          (Inr (ustr ''Error: '' @ exn_str e, 500),
           tr @ [Log ERROR (ustr ''Error processing message: '' @ exn_str e)])
      | (Inr (Some r), tr) \<Rightarrow> (Inr r, tr)
      | (Inr None, tr) \<Rightarrow> (Inr (ustr ''OK'', 200), tr))"
proof -
  have "kvs \<noteq> []" using assms(1) by auto
  then show ?thesis using assms unfolding index_def by simp
qed

text \<open>The \<open>try\<close> of the handler once the three decoding steps have returned.\<close>

lemma index_try_decoded:
  assumes "map_of fs (ustr ''data'') = Some d"
      and "b64decode env d = Inr raw"
      and "decode_utf8 env raw = Inr text"
      and "json_loads env (py_strip text) = Inr event_data"
  shows "index_try env (JDict fs) =
     (case py_get event_data (ustr ''bucket'') of
        Inl e \<Rightarrow> (Inl e, [])
      | Inr bucket_name \<Rightarrow>
     (case py_get event_data (ustr ''name'') of
        Inl e \<Rightarrow> (Inl e, [])
      | Inr file_name \<Rightarrow>
          if \<not> truthy bucket_name \<or> \<not> truthy file_name then
            (Inr (Some (ustr ''OK'', 200)),
             [Log WARNING (ustr ''Bucket or filename missing in event data.'')])
          else
            (let l = Log INFO (ustr ''Processing file: '' @ str_of env file_name
                               @ ustr '' from bucket: '' @ str_of env bucket_name)
             in case process_file env bucket_name file_name of
                  (Inl e, tr) \<Rightarrow> (Inl e, l # tr)
                | (Inr u, tr) \<Rightarrow> (Inr None, l # tr))))"
  using assms unfolding index_try_def by (simp add: Let_def)

lemma process_file_download_raises:
  assumes "download_as_text env b n = Inl e"
  shows "process_file env b n =
           (Inl e, [Download b n,
                    Log ERROR (ustr ''Failed to process file '' @ str_of env n
                               @ ustr '': '' @ exn_str e)])"
  using assms unfolding process_file_def process_file_try_def by simp

lemma process_file_downloaded:
  assumes "download_as_text env b n = Inr content"
  shows "process_file env b n =
           (let row = metadata n (utcnow_isoformat env) content;
                pre = [Download b n, Log INFO (ustr ''Extracted metadata: '' @ str_of env row)]
            in case insert_into_bigquery env row of
                 (Inl e, tr) \<Rightarrow>
                   (Inl e, pre @ tr @ [Log ERROR (ustr ''Failed to process file '' @ str_of env n
                                                  @ ustr '': '' @ exn_str e)])
               | (Inr u, tr) \<Rightarrow> (Inr u, pre @ tr))"
  using assms unfolding process_file_def process_file_try_def
  by (simp add: Let_def split: prod.splits sum.splits)

text \<open>The handler once the event is decoded, both names are truthy and the text is there.\<close>

lemma index_downloaded:
  assumes "map_of kvs (ustr ''message'') = Some (JDict fs)"
      and "map_of fs (ustr ''data'') = Some d"
      and "b64decode env d = Inr raw"
      and "decode_utf8 env raw = Inr text"
      and "json_loads env (py_strip text) = Inr (JDict ev)"
      and "map_of ev (ustr ''bucket'') = Some b" and "truthy b"
      and "map_of ev (ustr ''name'') = Some n" and "truthy n"
      and "download_as_text env b n = Inr content"
  shows "index env (JDict kvs) =
           (let row = metadata n (utcnow_isoformat env) content;
                pre = [Log INFO (ustr ''Processing file: '' @ str_of env n
                                 @ ustr '' from bucket: '' @ str_of env b),
                       Download b n,
                       Log INFO (ustr ''Extracted metadata: '' @ str_of env row)]
            in case insert_into_bigquery env row of
                 (Inl e, tr) \<Rightarrow>
                   (Inr (ustr ''Error: '' @ exn_str e, 500),
                    pre @ tr @ [Log ERROR (ustr ''Failed to process file '' @ str_of env n
                                           @ ustr '': '' @ exn_str e),
                                Log ERROR (ustr ''Error processing message: '' @ exn_str e)])
               | (Inr u, tr) \<Rightarrow> (Inr (ustr ''OK'', 200), pre @ tr))"
  using assms(6-9)
  by (simp add: index_with_data [OF assms(1,2)] index_try_decoded [OF assms(2-5)]
                process_file_downloaded [OF assms(10)] Let_def
           split: prod.splits sum.splits)

text \<open>When \<open>insert_into_bigquery\<close> raises and when it returns.\<close>

lemma insert_into_bigquery_cases:
  "insert_into_bigquery env row =
     (case insert_rows_json env (table_id env) [row] of
        Inl e \<Rightarrow> (Inl e, [InsertRows (table_id env) [row]])
      | Inr [] \<Rightarrow>
          (Inr (), [InsertRows (table_id env) [row],
                    Log INFO (ustr ''Successfully inserted row into BigQuery.'')])
      | Inr (x # xs) \<Rightarrow>
          (Inl (Raised ''Exception''
                  (ustr ''BigQuery insert failed: '' @ str_of env (JList (x # xs)))),
           [InsertRows (table_id env) [row],
            Log ERROR (ustr ''Encountered errors while inserting rows: ''
                       @ str_of env (JList (x # xs)))]))"
  unfolding insert_into_bigquery_def by (simp split: sum.splits list.splits)

subsection \<open>The tokens of \<open>split\<close>\<close>

lemma filter_upt_Suc:
  "filter P [0..<Suc n] = (if P 0 then [0] else []) @ map Suc (filter (P \<circ> Suc) [0..<n])"
proof -
  have "[0..<Suc n] = 0 # map Suc [0..<n]"
    by (simp add: upt_conv_Cons map_Suc_upt del: upt_Suc)
  then show ?thesis by (simp add: filter_map del: upt_Suc)
qed

lemma tokens_after_Nil: "tokens_after p [] = []"
  by (simp add: tokens_after_def)

lemma tokens_after_Cons:
  "tokens_after p (c # cs) =
     (if \<not> is_space c \<and> p then [takeWhile (\<lambda>c. \<not> is_space c) (c # cs)] else [])
     @ tokens_after (is_space c) cs"
proof -
  let ?P = "\<lambda>i. \<not> is_space ((c # cs) ! i) \<and> (if i = 0 then p else is_space ((c # cs) ! (i - 1)))"
  let ?Q = "\<lambda>i. \<not> is_space (cs ! i) \<and> (if i = 0 then is_space c else is_space (cs ! (i - 1)))"
  let ?tok = "\<lambda>s i. takeWhile (\<lambda>c. \<not> is_space c) (drop i s)"
  have shift: "?P \<circ> Suc = ?Q"
  proof (rule ext)
    fix i show "(?P \<circ> Suc) i = ?Q i" by (cases i) simp_all
  qed
  have "filter ?P [0..<length (c # cs)]
          = (if ?P 0 then [0] else []) @ map Suc (filter ?Q [0..<length cs])"
    using filter_upt_Suc [of ?P "length cs"] by (simp only: shift length_Cons)
  then have "tokens_after p (c # cs)
          = map (?tok (c # cs)) ((if ?P 0 then [0] else []) @ map Suc (filter ?Q [0..<length cs]))"
    by (simp only: tokens_after_def)
  also have "\<dots> = (if ?P 0 then [?tok (c # cs) 0] else [])
                    @ map (?tok cs) (filter ?Q [0..<length cs])"
    by (simp add: comp_def)
  also have "\<dots> = (if \<not> is_space c \<and> p then [takeWhile (\<lambda>c. \<not> is_space c) (c # cs)] else [])
                    @ tokens_after (is_space c) cs"
    by (simp add: tokens_after_def)
  finally show ?thesis .
qed

text \<open>
  The pass of \<open>split\<close> with the token \<open>cur\<close> open: \<open>cur\<close> is completed by the code points
  up to the next whitespace, and the other tokens are those of the specification.
\<close>

lemma split_from_tokens_after:
  "split_from cur s =
     (if cur \<noteq> [] then [cur @ takeWhile (\<lambda>c. \<not> is_space c) s] else [])
     @ tokens_after (cur = []) s"
proof (induction s arbitrary: cur)
  case Nil
  show ?case by (simp add: tokens_after_Nil)
next
  case (Cons c cs)
  show ?case by (simp add: Cons.IH tokens_after_Cons)
qed

lemma py_split_tokens: "py_split s = whitespace_separated_tokens s"
proof -
  have "(\<lambda>i. \<not> is_space (s ! i) \<and> (if i = 0 then True else is_space (s ! (i - 1))))
        = (\<lambda>i. \<not> is_space (s ! i) \<and> (i = 0 \<or> is_space (s ! (i - 1))))"
    by (rule ext) simp
  then have "tokens_after True s = whitespace_separated_tokens s"
    by (simp add: tokens_after_def whitespace_separated_tokens_def token_starts_def)
  then show ?thesis
    by (simp add: py_split_def split_from_tokens_after)
qed

subsection \<open>The sample environment on the scenario\<close>

lemma sample_decodes_scenario:
  "b64decode (sample_env objs r) (JStr (ustr ''eyJidWNrZXQiOiJiMSIsIm5hbWUiOiJmMS50eHQifQ==''))
     = Inr scenario_payload"
  "decode_utf8 (sample_env objs r) scenario_payload = Inr scenario_payload"
  "json_loads (sample_env objs r) scenario_payload
     = Inr (JDict [(ustr ''bucket'', JStr (ustr ''b1'')), (ustr ''name'', JStr (ustr ''f1.txt''))])"
proof -
  have 1: "ref_b64decode (ustr ''eyJidWNrZXQiOiJiMSIsIm5hbWUiOiJmMS50eHQifQ=='') = Some scenario_payload"
    by code_simp
  have 2: "ref_utf8_decode scenario_payload = Some scenario_payload"
    by code_simp
  have 3: "ref_json_loads scenario_payload
     = Some (JDict [(ustr ''bucket'', JStr (ustr ''b1'')), (ustr ''name'', JStr (ustr ''f1.txt''))])"
    by code_simp
  show "b64decode (sample_env objs r) (JStr (ustr ''eyJidWNrZXQiOiJiMSIsIm5hbWUiOiJmMS50eHQifQ==''))
     = Inr scenario_payload"
    by (simp add: sample_env_def 1)
  show "decode_utf8 (sample_env objs r) scenario_payload = Inr scenario_payload"
    by (simp add: sample_env_def 2)
  show "json_loads (sample_env objs r) scenario_payload
     = Inr (JDict [(ustr ''bucket'', JStr (ustr ''b1'')), (ustr ''name'', JStr (ustr ''f1.txt''))])"
    by (simp add: sample_env_def 3)
qed

text \<open>Whitespace is decided on a numeral by comparing numerals.\<close>

lemma is_space_numeral [simp]:
  "is_space (numeral k) \<longleftrightarrow>
     (9 \<le> (numeral k :: nat) \<and> (numeral k :: nat) \<le> 13) \<or>
     (28 \<le> (numeral k :: nat) \<and> (numeral k :: nat) \<le> 32) \<or>
     (numeral k :: nat) = 133 \<or> (numeral k :: nat) = 160 \<or> (numeral k :: nat) = 5760 \<or>
     (8192 \<le> (numeral k :: nat) \<and> (numeral k :: nat) \<le> 8202) \<or>
     (numeral k :: nat) = 8232 \<or> (numeral k :: nat) = 8233 \<or> (numeral k :: nat) = 8239 \<or>
     (numeral k :: nat) = 8287 \<or> (numeral k :: nat) = 12288"
  by (rule is_space_def)

lemma py_strip_scenario_payload: "py_strip scenario_payload = scenario_payload"
  by (simp add: py_strip_def scenario_payload_def ustr_def)

lemma py_split_hello_world: "py_split (ustr ''hello world'') = [ustr ''hello'', ustr ''world'']"
  by (simp add: py_split_def ustr_def)

lemma metadata_hello_world:
  "metadata (JStr (ustr ''f1.txt'')) now (ustr ''hello world'') = scenario_row now"
  by (simp add: metadata_def scenario_row_def py_split_hello_world len_def Let_def)

lemma envelope_message: "map_of [(ustr ''message'', m)] (ustr ''message'') = Some m"
  by simp

lemma message_data: "map_of [(ustr ''data'', d)] (ustr ''data'') = Some d"
  by simp

lemma sample_b64decode:
  "b64decode (sample_env objs r) (JStr s) =
     (case ref_b64decode s of
        Some raw \<Rightarrow> Inr raw
      | None \<Rightarrow> Inl (Raised ''binascii.Error'' (ustr ''Incorrect padding'')))"
  by (simp add: sample_env_def)

lemma sample_decode_utf8:
  "decode_utf8 (sample_env objs r) raw =
     (case ref_utf8_decode raw of
        Some text \<Rightarrow> Inr text
      | None \<Rightarrow> Inl (Raised ''UnicodeDecodeError'' (ustr ''invalid utf-8'')))"
  by (simp add: sample_env_def)

lemma sample_json_loads:
  "json_loads (sample_env objs r) s =
     (case ref_json_loads s of
        Some v \<Rightarrow> Inr v
      | None \<Rightarrow> Inl (Raised ''JSONDecodeError'' (ustr ''Expecting value'')))"
  by (simp add: sample_env_def)

lemma sample_download_as_text:
  "download_as_text (sample_env objs r) b n =
     (case map_of objs (b, n) of
        Some text \<Rightarrow> Inr text
      | None \<Rightarrow> Inl (Raised ''NotFound'' (ustr ''404 No such object'')))"
  by (simp add: sample_env_def)

lemma sample_insert_rows_json: "insert_rows_json (sample_env objs r) t rows = r"
  by (simp add: sample_env_def)

lemma scenario_event_fields:
  "map_of [(ustr ''bucket'', JStr (ustr ''b1'')), (ustr ''name'', JStr (ustr ''f1.txt''))]
     (ustr ''bucket'') = Some (JStr (ustr ''b1''))"
  "map_of [(ustr ''bucket'', JStr (ustr ''b1'')), (ustr ''name'', JStr (ustr ''f1.txt''))]
     (ustr ''name'') = Some (JStr (ustr ''f1.txt''))"
  "truthy (JStr (ustr ''b1''))"
  "truthy (JStr (ustr ''f1.txt''))"
  by (simp_all add: ustr_def)

lemma sample_loads_stripped_scenario:
  "json_loads (sample_env objs r) (py_strip scenario_payload)
     = Inr (JDict [(ustr ''bucket'', JStr (ustr ''b1'')), (ustr ''name'', JStr (ustr ''f1.txt''))])"
  by (simp add: py_strip_scenario_payload sample_decodes_scenario(3))

section \<open>The claims\<close>

text \<open>
  C1 (as amended). For a request whose body is a JSON object: when the key \<open>message\<close> is
  absent the handler answers 400 with a body that starts with \<open>Bad Request\<close>; when the key
  is present with a value that is not a \<open>dict\<close> the handler answers 200 \<open>OK\<close> and does
  nothing else.
\<close>

theorem index_without_message:
  "(map_of kvs (ustr ''message'') = None \<longrightarrow>
      fst (index env (JDict kvs)) =
        Inr (ustr ''Bad Request: '' @
             (if kvs = [] then ustr ''no Pub/Sub message received''
              else ustr ''invalid Pub/Sub message format''), 400)) \<and>
   (\<forall>m. map_of kvs (ustr ''message'') = Some m \<and> \<not> isinstance_dict m \<longrightarrow>
      index env (JDict kvs) = (Inr (ustr ''OK'', 200), []))"
proof (intro conjI impI allI)
  assume "map_of kvs (ustr ''message'') = None"
  then show "fst (index env (JDict kvs)) =
        Inr (ustr ''Bad Request: '' @
             (if kvs = [] then ustr ''no Pub/Sub message received''
              else ustr ''invalid Pub/Sub message format''), 400)"
    unfolding index_def by (simp add: Let_def)
next
  fix m assume a: "map_of kvs (ustr ''message'') = Some m \<and> \<not> isinstance_dict m"
  then have "kvs \<noteq> []" by auto
  with a show "index env (JDict kvs) = (Inr (ustr ''OK'', 200), [])"
    unfolding index_def by simp
qed

theorem index_without_message_witness:
  "fst (index (sample_env [] (Inr [])) (JDict [(ustr ''subscription'', JStr (ustr ''s1''))]))
     = Inr (ustr ''Bad Request: '' @ ustr ''invalid Pub/Sub message format'', 400) \<and>
   index (sample_env [] (Inr [])) (JDict [(ustr ''message'', JStr (ustr ''hello''))])
     = (Inr (ustr ''OK'', 200), [])"
  using index_without_message
          [of "[(ustr ''subscription'', JStr (ustr ''s1''))]" "sample_env [] (Inr [])"]
        index_without_message
          [of "[(ustr ''message'', JStr (ustr ''hello''))]" "sample_env [] (Inr [])"]
  by simp

text \<open>
  C1 as stated fails: the envelope \<open>{"message": "hello"}\<close> has the key with a value that
  is not a \<open>dict\<close>, and the handler answers 200 \<open>OK\<close>, not 400.
\<close>

theorem index_message_not_dict_counterexample:
  "fst (index (sample_env [] (Inr [])) (JDict [(ustr ''message'', JStr (ustr ''hello''))]))
     = Inr (ustr ''OK'', 200)"
  by (simp add: index_def)

text \<open>
  C2. The scenario: the envelope carries the base64 of the payload with the bucket \<open>b1\<close> and
  the name \<open>f1.txt\<close>, the three decoding steps return the payload, the store returns
  \<open>hello world\<close> and the warehouse reports no error. Then the row built is the expected one
  (filename \<open>f1.txt\<close>, word count 2, snippet \<open>hello world\<close>, the three tags), the store is
  read once, the insert is called once with exactly that row, and the handler answers
  200 \<open>OK\<close>.
\<close>

theorem index_scenario_hello_world:
  assumes "b64decode env (JStr (ustr ''eyJidWNrZXQiOiJiMSIsIm5hbWUiOiJmMS50eHQifQ==''))
             = Inr scenario_payload"
      and "decode_utf8 env scenario_payload = Inr scenario_payload"
      and "json_loads env scenario_payload
             = Inr (JDict [(ustr ''bucket'', JStr (ustr ''b1'')),
                           (ustr ''name'', JStr (ustr ''f1.txt''))])"
      and "download_as_text env (JStr (ustr ''b1'')) (JStr (ustr ''f1.txt''))
             = Inr (ustr ''hello world'')"
      and "insert_rows_json env (table_id env) [scenario_row (utcnow_isoformat env)] = Inr []"
  shows "metadata (JStr (ustr ''f1.txt'')) (utcnow_isoformat env) (ustr ''hello world'')
           = scenario_row (utcnow_isoformat env) \<and>
         fst (index env scenario_envelope) = Inr (ustr ''OK'', 200) \<and>
         downloads (snd (index env scenario_envelope))
           = [(JStr (ustr ''b1''), JStr (ustr ''f1.txt''))] \<and>
         inserts (snd (index env scenario_envelope))
           = [(table_id env, [scenario_row (utcnow_isoformat env)])]"
proof -
  have m: "map_of [(ustr ''message'',
             JDict [(ustr ''data'', JStr (ustr ''eyJidWNrZXQiOiJiMSIsIm5hbWUiOiJmMS50eHQifQ==''))])]
             (ustr ''message'')
           = Some (JDict [(ustr ''data'', JStr (ustr ''eyJidWNrZXQiOiJiMSIsIm5hbWUiOiJmMS50eHQifQ==''))])"
    by simp
  have d: "map_of [(ustr ''data'', JStr (ustr ''eyJidWNrZXQiOiJiMSIsIm5hbWUiOiJmMS50eHQifQ==''))]
             (ustr ''data'')
           = Some (JStr (ustr ''eyJidWNrZXQiOiJiMSIsIm5hbWUiOiJmMS50eHQifQ==''))"
    by simp
  have j: "json_loads env (py_strip scenario_payload)
             = Inr (JDict [(ustr ''bucket'', JStr (ustr ''b1'')),
                           (ustr ''name'', JStr (ustr ''f1.txt''))])"
    using assms(3) by (simp add: py_strip_scenario_payload)
  have b: "map_of [(ustr ''bucket'', JStr (ustr ''b1'')), (ustr ''name'', JStr (ustr ''f1.txt''))]
             (ustr ''bucket'') = Some (JStr (ustr ''b1''))"
    by simp
  have n: "map_of [(ustr ''bucket'', JStr (ustr ''b1'')), (ustr ''name'', JStr (ustr ''f1.txt''))]
             (ustr ''name'') = Some (JStr (ustr ''f1.txt''))"
    by simp
  have tb: "truthy (JStr (ustr ''b1''))" by (simp add: ustr_def)
  have tn: "truthy (JStr (ustr ''f1.txt''))" by (simp add: ustr_def)
  have i: "insert_into_bigquery env (scenario_row (utcnow_isoformat env))
             = (Inr (), [InsertRows (table_id env) [scenario_row (utcnow_isoformat env)],
                         Log INFO (ustr ''Successfully inserted row into BigQuery.'')])"
    by (simp add: insert_into_bigquery_cases assms(5))
  have "index env scenario_envelope =
          (Inr (ustr ''OK'', 200),
           [Log INFO (ustr ''Processing file: '' @ str_of env (JStr (ustr ''f1.txt''))
                      @ ustr '' from bucket: '' @ str_of env (JStr (ustr ''b1''))),
            Download (JStr (ustr ''b1'')) (JStr (ustr ''f1.txt'')),
            Log INFO (ustr ''Extracted metadata: ''
                      @ str_of env (scenario_row (utcnow_isoformat env))),
            InsertRows (table_id env) [scenario_row (utcnow_isoformat env)],
            Log INFO (ustr ''Successfully inserted row into BigQuery.'')])"
    unfolding scenario_envelope_def
    by (simp add: index_downloaded [OF m d assms(1) assms(2) j b tb n tn assms(4)]
                  metadata_hello_world i Let_def)
  then show ?thesis by (simp add: metadata_hello_world)
qed

theorem index_scenario_hello_world_witness:
  "fst (index (sample_env scenario_objects (Inr [])) scenario_envelope) = Inr (ustr ''OK'', 200) \<and>
   inserts (snd (index (sample_env scenario_objects (Inr [])) scenario_envelope))
     = [(ustr ''demo'' @ ustr ''.'' @ ustr ''doc_processing'' @ ustr ''.'' @ ustr ''metadata'',
         [scenario_row (ustr ''2024-05-01T12:00:00'')])]"
proof -
  have f: "download_as_text (sample_env scenario_objects (Inr []))
             (JStr (ustr ''b1'')) (JStr (ustr ''f1.txt'')) = Inr (ustr ''hello world'')"
    by (simp add: sample_env_def scenario_objects_def)
  have w: "insert_rows_json (sample_env scenario_objects (Inr []))
             (table_id (sample_env scenario_objects (Inr [])))
             [scenario_row (utcnow_isoformat (sample_env scenario_objects (Inr [])))] = Inr []"
    by (simp add: sample_env_def)
  show ?thesis
    using index_scenario_hello_world
            [OF sample_decodes_scenario(1) sample_decodes_scenario(2)
                sample_decodes_scenario(3) f w]
    by (simp add: sample_env_def table_id_def)
qed

text \<open>
  C3. For every text, the word count of the metadata is the number of whitespace-separated
  tokens of the text, an integer that is not negative; the snippet is the first 100 code
  points when the text is longer than 100 and the whole text otherwise, so it is never
  longer than 100 and is the text itself when the text has at most 100 code points.
\<close>

theorem metadata_word_count_and_snippet:
  "\<exists>w snippet.
     py_get (metadata file_name now content) (ustr ''word_count'') = Inr (JInt w) \<and>
     w = int (length (whitespace_separated_tokens content)) \<and> 0 \<le> w \<and>
     py_get (metadata file_name now content) (ustr ''content_snippet'') = Inr (JStr snippet) \<and>
     snippet = (if length content > 100 then take 100 content else content) \<and>
     length snippet \<le> 100 \<and>
     (length content \<le> 100 \<longrightarrow> snippet = content)"
  by (simp add: metadata_def len_def py_split_tokens Let_def)

theorem metadata_word_count_and_snippet_witness:
  "py_get (metadata (JStr (ustr ''f1.txt'')) (ustr ''2024-05-01T12:00:00'') (ustr ''hello world''))
     (ustr ''word_count'') = Inr (JInt 2) \<and>
   py_get (metadata (JStr (ustr ''f1.txt'')) (ustr ''2024-05-01T12:00:00'') (ustr ''hello world''))
     (ustr ''content_snippet'') = Inr (JStr (ustr ''hello world'')) \<and>
   py_get (metadata (JStr (ustr ''f1.txt'')) (ustr ''2024-05-01T12:00:00'') (replicate 150 97))
     (ustr ''content_snippet'') = Inr (JStr (replicate 100 97))"
proof -
  have t: "whitespace_separated_tokens (ustr ''hello world'') = [ustr ''hello'', ustr ''world'']"
    using py_split_tokens [of "ustr ''hello world''"] by (simp add: py_split_hello_world)
  show ?thesis
    using metadata_word_count_and_snippet
            [of "JStr (ustr ''f1.txt'')" "ustr ''2024-05-01T12:00:00''" "ustr ''hello world''"]
          metadata_word_count_and_snippet
            [of "JStr (ustr ''f1.txt'')" "ustr ''2024-05-01T12:00:00''" "replicate 150 97"]
    by (auto simp: t)
qed

text \<open>
  C4. When the data of the message fails at the base64 step, at the UTF-8 step or at the
  JSON step with an exception \<open>e\<close>, the handler catches it: it answers 500 with the body
  \<open>Error: \<close> followed by \<open>str(e)\<close>, logs the error, calls neither the store nor the
  warehouse, and no exception leaves the handler (the result is \<open>Inr\<close>).
\<close>

theorem index_decode_failure:
  assumes "map_of kvs (ustr ''message'') = Some (JDict fs)"
      and "map_of fs (ustr ''data'') = Some d"
      and "b64decode env d = Inl e \<or>
           (\<exists>raw. b64decode env d = Inr raw \<and>
              (decode_utf8 env raw = Inl e \<or>
               (\<exists>text. decode_utf8 env raw = Inr text \<and>
                  json_loads env (py_strip text) = Inl e)))"
  shows "index env (JDict kvs) =
           (Inr (ustr ''Error: '' @ exn_str e, 500),
            [Log ERROR (ustr ''Error processing message: '' @ exn_str e)])"
proof -
  have "index_try env (JDict fs) = (Inl e, [])"
    using assms(2,3) unfolding index_try_def by (auto simp: Let_def)
  then show ?thesis by (simp add: index_with_data [OF assms(1,2)])
qed

theorem index_decode_failure_witness:
  "index (sample_env [] (Inr [])) (envelope_of ''abc'') =
     (Inr (ustr ''Error: '' @ ustr ''Incorrect padding'', 500),
      [Log ERROR (ustr ''Error processing message: '' @ ustr ''Incorrect padding'')]) \<and>
   index (sample_env [] (Inr [])) (envelope_of ''/w=='') =
     (Inr (ustr ''Error: '' @ ustr ''invalid utf-8'', 500),
      [Log ERROR (ustr ''Error processing message: '' @ ustr ''invalid utf-8'')]) \<and>
   index (sample_env [] (Inr [])) (envelope_of ''ew=='') =
     (Inr (ustr ''Error: '' @ ustr ''Expecting value'', 500),
      [Log ERROR (ustr ''Error processing message: '' @ ustr ''Expecting value'')])"
proof -
  let ?E = "sample_env [] (Inr [])"
  have a: "b64decode ?E (JStr (ustr ''abc''))
             = Inl (Raised ''binascii.Error'' (ustr ''Incorrect padding''))"
  proof -
    have "ref_b64decode (ustr ''abc'') = None" by code_simp
    then show ?thesis by (simp add: sample_b64decode)
  qed
  have b1: "b64decode ?E (JStr (ustr ''/w=='')) = Inr [255]"
  proof -
    have "ref_b64decode (ustr ''/w=='') = Some [255]" by code_simp
    then show ?thesis by (simp add: sample_b64decode)
  qed
  have b2: "decode_utf8 ?E [255] = Inl (Raised ''UnicodeDecodeError'' (ustr ''invalid utf-8''))"
    by (simp add: sample_decode_utf8)
  have c1: "b64decode ?E (JStr (ustr ''ew=='')) = Inr [123]"
  proof -
    have "ref_b64decode (ustr ''ew=='') = Some [123]" by code_simp
    then show ?thesis by (simp add: sample_b64decode)
  qed
  have c2: "decode_utf8 ?E [123] = Inr [123]"
    by (simp add: sample_decode_utf8)
  have c3: "json_loads ?E (py_strip [123])
              = Inl (Raised ''JSONDecodeError'' (ustr ''Expecting value''))"
  proof -
    have "ref_json_loads [123] = None" by code_simp
    then show ?thesis by (simp add: sample_json_loads py_strip_def)
  qed
  have b: "\<exists>raw. b64decode ?E (JStr (ustr ''/w=='')) = Inr raw \<and>
             (decode_utf8 ?E raw = Inl (Raised ''UnicodeDecodeError'' (ustr ''invalid utf-8'')) \<or>
              (\<exists>text. decode_utf8 ?E raw = Inr text \<and>
                 json_loads ?E (py_strip text)
                   = Inl (Raised ''UnicodeDecodeError'' (ustr ''invalid utf-8''))))"
    using b1 b2 by blast
  have c: "\<exists>raw. b64decode ?E (JStr (ustr ''ew=='')) = Inr raw \<and>
             (decode_utf8 ?E raw = Inl (Raised ''JSONDecodeError'' (ustr ''Expecting value'')) \<or>
              (\<exists>text. decode_utf8 ?E raw = Inr text \<and>
                 json_loads ?E (py_strip text)
                   = Inl (Raised ''JSONDecodeError'' (ustr ''Expecting value''))))"
    using c1 c2 c3 by blast
  show ?thesis
    using index_decode_failure [OF envelope_message message_data disjI1 [OF a]]
          index_decode_failure [OF envelope_message message_data disjI2 [OF b]]
          index_decode_failure [OF envelope_message message_data disjI2 [OF c]]
    by (simp add: envelope_of_def)
qed

text \<open>
  C5. When the payload decodes to a JSON object in which \<open>bucket\<close> or \<open>name\<close> is missing
  or empty (or any other value that is false), the handler answers 200 \<open>OK\<close> and makes no
  downstream call: the trace holds no download and no insert.
\<close>

theorem index_missing_bucket_or_name:
  assumes "map_of kvs (ustr ''message'') = Some (JDict fs)"
      and "map_of fs (ustr ''data'') = Some d"
      and "b64decode env d = Inr raw"
      and "decode_utf8 env raw = Inr text"
      and "json_loads env (py_strip text) = Inr (JDict ev)"
      and "(case map_of ev (ustr ''bucket'') of None \<Rightarrow> True | Some b \<Rightarrow> \<not> truthy b) \<or>
           (case map_of ev (ustr ''name'') of None \<Rightarrow> True | Some n \<Rightarrow> \<not> truthy n)"
  shows "fst (index env (JDict kvs)) = Inr (ustr ''OK'', 200) \<and>
         downloads (snd (index env (JDict kvs))) = [] \<and>
         inserts (snd (index env (JDict kvs))) = []"
proof -
  have "index_try env (JDict fs) =
          (Inr (Some (ustr ''OK'', 200)),
           [Log WARNING (ustr ''Bucket or filename missing in event data.'')])"
    using assms(6)
    by (auto simp: index_try_decoded [OF assms(2-5)] split: option.splits)
  then show ?thesis by (simp add: index_with_data [OF assms(1,2)])
qed

theorem index_missing_bucket_or_name_witness:
  "fst (index (sample_env scenario_objects (Inr [])) (envelope_of ''eyJuYW1lIjoiZjEudHh0In0=''))
     = Inr (ustr ''OK'', 200) \<and>
   downloads (snd (index (sample_env scenario_objects (Inr []))
                     (envelope_of ''eyJuYW1lIjoiZjEudHh0In0=''))) = [] \<and>
   inserts (snd (index (sample_env scenario_objects (Inr []))
                   (envelope_of ''eyJuYW1lIjoiZjEudHh0In0=''))) = []"
proof -
  let ?E = "sample_env scenario_objects (Inr [])"
  let ?p = "[123, 34, 110, 97, 109, 101, 34, 58, 34, 102, 49, 46, 116, 120, 116, 34, 125]"
  have h3: "b64decode ?E (JStr (ustr ''eyJuYW1lIjoiZjEudHh0In0='')) = Inr ?p"
  proof -
    have "ref_b64decode (ustr ''eyJuYW1lIjoiZjEudHh0In0='') = Some ?p" by code_simp
    then show ?thesis by (simp add: sample_b64decode)
  qed
  have h4: "decode_utf8 ?E ?p = Inr ?p"
  proof -
    have "ref_utf8_decode ?p = Some ?p" by code_simp
    then show ?thesis by (simp add: sample_decode_utf8)
  qed
  have h5: "json_loads ?E (py_strip ?p) = Inr (JDict [(ustr ''name'', JStr (ustr ''f1.txt''))])"
  proof -
    have "ref_json_loads ?p = Some (JDict [(ustr ''name'', JStr (ustr ''f1.txt''))])"
      by code_simp
    then show ?thesis by (simp add: sample_json_loads py_strip_def)
  qed
  have h6: "(case map_of [(ustr ''name'', JStr (ustr ''f1.txt''))] (ustr ''bucket'') of
               None \<Rightarrow> True | Some b \<Rightarrow> \<not> truthy b) \<or>
            (case map_of [(ustr ''name'', JStr (ustr ''f1.txt''))] (ustr ''name'') of
               None \<Rightarrow> True | Some n \<Rightarrow> \<not> truthy n)"
    by simp
  show ?thesis
    using index_missing_bucket_or_name [OF envelope_message message_data h3 h4 h5 h6]
    by (simp add: envelope_of_def)
qed

text \<open>
  C6 (as amended). \<open>insert_into_bigquery\<close> raises exactly when the insert call itself
  raises or returns a list of errors that is not empty; and when it raises while a
  notification is processed, the handler answers 500 with the message of the exception.
\<close>

theorem insert_into_bigquery_raises:
  "((\<exists>e. fst (insert_into_bigquery env row) = Inl e) \<longleftrightarrow>
      (\<exists>e. insert_rows_json env (table_id env) [row] = Inl e) \<or>
      (\<exists>errors. insert_rows_json env (table_id env) [row] = Inr errors \<and> errors \<noteq> [])) \<and>
   (\<forall>kvs fs d raw text ev b n content e.
      map_of kvs (ustr ''message'') = Some (JDict fs) \<longrightarrow>
      map_of fs (ustr ''data'') = Some d \<longrightarrow>
      b64decode env d = Inr raw \<longrightarrow>
      decode_utf8 env raw = Inr text \<longrightarrow>
      json_loads env (py_strip text) = Inr (JDict ev) \<longrightarrow>
      map_of ev (ustr ''bucket'') = Some b \<longrightarrow> truthy b \<longrightarrow>
      map_of ev (ustr ''name'') = Some n \<longrightarrow> truthy n \<longrightarrow>
      download_as_text env b n = Inr content \<longrightarrow>
      fst (insert_into_bigquery env (metadata n (utcnow_isoformat env) content)) = Inl e \<longrightarrow>
      fst (index env (JDict kvs)) = Inr (ustr ''Error: '' @ exn_str e, 500))"
proof (intro conjI allI impI)
  show "(\<exists>e. fst (insert_into_bigquery env row) = Inl e) \<longleftrightarrow>
      (\<exists>e. insert_rows_json env (table_id env) [row] = Inl e) \<or>
      (\<exists>errors. insert_rows_json env (table_id env) [row] = Inr errors \<and> errors \<noteq> [])"
    by (cases "insert_rows_json env (table_id env) [row]")
       (auto simp: insert_into_bigquery_def)
next
  fix kvs fs d raw tx ev b n content e
  assume h: "map_of kvs (ustr ''message'') = Some (JDict fs)"
            "map_of fs (ustr ''data'') = Some d"
            "b64decode env d = Inr raw"
            "decode_utf8 env raw = Inr tx"
            "json_loads env (py_strip tx) = Inr (JDict ev)"
            "map_of ev (ustr ''bucket'') = Some b" "truthy b"
            "map_of ev (ustr ''name'') = Some n" "truthy n"
            "download_as_text env b n = Inr content"
     and r: "fst (insert_into_bigquery env (metadata n (utcnow_isoformat env) content)) = Inl e"
  obtain tr where "insert_into_bigquery env (metadata n (utcnow_isoformat env) content) = (Inl e, tr)"
    using r by (cases "insert_into_bigquery env (metadata n (utcnow_isoformat env) content)") simp
  then show "fst (index env (JDict kvs)) = Inr (ustr ''Error: '' @ exn_str e, 500)"
    by (simp add: index_downloaded [OF h] Let_def)
qed

theorem insert_into_bigquery_raises_witness:
  "fst (insert_into_bigquery
          (sample_env scenario_objects (Inr [JDict [(ustr ''index'', JInt 0)]]))
          (scenario_row (ustr ''2024-05-01T12:00:00'')))
     = Inl (Raised ''Exception''
              (ustr ''BigQuery insert failed: ''
               @ sample_str (JList [JDict [(ustr ''index'', JInt 0)]]))) \<and>
   fst (index (sample_env scenario_objects (Inr [JDict [(ustr ''index'', JInt 0)]]))
          scenario_envelope)
     = Inr (ustr ''Error: '' @ ustr ''BigQuery insert failed: ''
            @ sample_str (JList [JDict [(ustr ''index'', JInt 0)]]), 500)"
proof -
  let ?E = "sample_env scenario_objects (Inr [JDict [(ustr ''index'', JInt 0)]])"
  let ?e = "Raised ''Exception''
              (ustr ''BigQuery insert failed: ''
               @ sample_str (JList [JDict [(ustr ''index'', JInt 0)]]))"
  have now: "utcnow_isoformat ?E = ustr ''2024-05-01T12:00:00''"
    by (simp add: sample_env_def)
  have f: "download_as_text ?E (JStr (ustr ''b1'')) (JStr (ustr ''f1.txt''))
             = Inr (ustr ''hello world'')"
    by (simp add: sample_download_as_text scenario_objects_def)
  have i: "fst (insert_into_bigquery ?E (scenario_row (ustr ''2024-05-01T12:00:00''))) = Inl ?e"
    by (simp add: insert_into_bigquery_def sample_insert_rows_json) (simp add: sample_env_def)
  have r: "fst (insert_into_bigquery ?E
                  (metadata (JStr (ustr ''f1.txt'')) (utcnow_isoformat ?E) (ustr ''hello world'')))
             = Inl ?e"
    using i by (simp add: metadata_hello_world now)
  have "fst (index ?E (JDict [(ustr ''message'',
               JDict [(ustr ''data'',
                       JStr (ustr ''eyJidWNrZXQiOiJiMSIsIm5hbWUiOiJmMS50eHQifQ==''))])]))
          = Inr (ustr ''Error: '' @ exn_str ?e, 500)"
    using insert_into_bigquery_raises
            [of ?E row, THEN conjunct2, rule_format,
             OF envelope_message message_data sample_decodes_scenario(1)
                sample_decodes_scenario(2) sample_loads_stripped_scenario
                scenario_event_fields(1) scenario_event_fields(3)
                scenario_event_fields(2) scenario_event_fields(4) f r]
    by simp
  then show ?thesis using i by (simp add: scenario_envelope_def)
qed

text \<open>
  C6 as stated fails in one direction: when the insert call itself raises (here the table
  is not found), \<open>insert_into_bigquery\<close> raises although the call returned no list of
  errors.
\<close>

theorem insert_call_raises_counterexample:
  "fst (insert_into_bigquery
          (sample_env scenario_objects (Inl (Raised ''NotFound'' (ustr ''404 Not found: Table''))))
          (scenario_row (ustr ''2024-05-01T12:00:00'')))
     = Inl (Raised ''NotFound'' (ustr ''404 Not found: Table'')) \<and>
   insert_rows_json
     (sample_env scenario_objects (Inl (Raised ''NotFound'' (ustr ''404 Not found: Table''))))
     (table_id (sample_env scenario_objects
                  (Inl (Raised ''NotFound'' (ustr ''404 Not found: Table'')))))
     [scenario_row (ustr ''2024-05-01T12:00:00'')]
     = Inl (Raised ''NotFound'' (ustr ''404 Not found: Table''))"
  by (simp add: insert_into_bigquery_def sample_insert_rows_json)

text \<open>
  C7. When the event names a bucket and a file and the download raises \<open>e\<close>, the handler
  catches it: it answers 500 with the body \<open>Error: \<close> followed by \<open>str(e)\<close>, the store was
  asked once, and no insert was attempted.
\<close>

theorem index_download_failure:
  assumes "map_of kvs (ustr ''message'') = Some (JDict fs)"
      and "map_of fs (ustr ''data'') = Some d"
      and "b64decode env d = Inr raw"
      and "decode_utf8 env raw = Inr text"
      and "json_loads env (py_strip text) = Inr (JDict ev)"
      and "map_of ev (ustr ''bucket'') = Some b" and "truthy b"
      and "map_of ev (ustr ''name'') = Some n" and "truthy n"
      and "download_as_text env b n = Inl e"
  shows "fst (index env (JDict kvs)) = Inr (ustr ''Error: '' @ exn_str e, 500) \<and>
         downloads (snd (index env (JDict kvs))) = [(b, n)] \<and>
         inserts (snd (index env (JDict kvs))) = []"
proof -
  have "index_try env (JDict fs) =
          (Inl e, [Log INFO (ustr ''Processing file: '' @ str_of env n
                             @ ustr '' from bucket: '' @ str_of env b),
                   Download b n,
                   Log ERROR (ustr ''Failed to process file '' @ str_of env n
                              @ ustr '': '' @ exn_str e)])"
    using assms(6-9)
    by (simp add: index_try_decoded [OF assms(2-5)]
                  process_file_download_raises [OF assms(10)] Let_def)
  then show ?thesis by (simp add: index_with_data [OF assms(1,2)])
qed

theorem index_download_failure_witness:
  "fst (index (sample_env [] (Inr [])) scenario_envelope)
     = Inr (ustr ''Error: '' @ ustr ''404 No such object'', 500) \<and>
   downloads (snd (index (sample_env [] (Inr [])) scenario_envelope))
     = [(JStr (ustr ''b1''), JStr (ustr ''f1.txt''))] \<and>
   inserts (snd (index (sample_env [] (Inr [])) scenario_envelope)) = []"
proof -
  have f: "download_as_text (sample_env [] (Inr [])) (JStr (ustr ''b1'')) (JStr (ustr ''f1.txt''))
             = Inl (Raised ''NotFound'' (ustr ''404 No such object''))"
    by (simp add: sample_download_as_text)
  show ?thesis
    using index_download_failure
            [OF envelope_message message_data sample_decodes_scenario(1)
                sample_decodes_scenario(2) sample_loads_stripped_scenario
                scenario_event_fields(1) scenario_event_fields(3)
                scenario_event_fields(2) scenario_event_fields(4) f]
    by (simp add: scenario_envelope_def)
qed

text \<open>
  C8. When the envelope is a JSON object with a key \<open>message\<close> whose value has no field
  \<open>data\<close> (a \<open>dict\<close> without the key, or a value that is not a \<open>dict\<close>), the handler
  answers 200 \<open>OK\<close> and does nothing else, whatever else the envelope holds.
\<close>

theorem index_message_without_data:
  assumes "map_of kvs (ustr ''message'') = Some m"
      and "\<forall>fs. m = JDict fs \<longrightarrow> map_of fs (ustr ''data'') = None"
  shows "index env (JDict kvs) = (Inr (ustr ''OK'', 200), [])"
proof -
  have t: "kvs \<noteq> []" using assms(1) by auto
  have nd: "(isinstance_dict m \<and> py_in (ustr ''data'') m) = False"
    using assms(2) by (cases m) auto
  show ?thesis
    unfolding index_def by (simp add: t nd assms(1))
qed

theorem index_message_without_data_witness:
  "index (sample_env scenario_objects (Inr []))
     (JDict [(ustr ''subscription'', JStr (ustr ''s1'')),
             (ustr ''message'', JDict [(ustr ''attributes'', JDict [])])])
     = (Inr (ustr ''OK'', 200), [])"
proof -
  have h1: "map_of [(ustr ''subscription'', JStr (ustr ''s1'')),
                    (ustr ''message'', JDict [(ustr ''attributes'', JDict [])])]
              (ustr ''message'') = Some (JDict [(ustr ''attributes'', JDict [])])"
    by simp
  have h2: "\<forall>fs. JDict [(ustr ''attributes'', JDict [])] = JDict fs
              \<longrightarrow> map_of fs (ustr ''data'') = None"
    by simp
  show ?thesis using index_message_without_data [OF h1 h2] by simp
qed

text \<open>
  C9. Extracting twice from the same text gives the same word count and the same snippet,
  whatever the two timestamps (and the two file names) are.
\<close>

theorem metadata_reextraction:
  "py_get (metadata file_name now content) (ustr ''word_count'')
     = py_get (metadata file_name' now' content) (ustr ''word_count'') \<and>
   py_get (metadata file_name now content) (ustr ''content_snippet'')
     = py_get (metadata file_name' now' content) (ustr ''content_snippet'')"
  by (simp add: metadata_def Let_def)

text \<open>
  C10. When the payload decodes to a JSON value that is not an object, \<open>event_data.get\<close>
  raises \<open>AttributeError\<close>, which the handler catches: it answers 500, not 200 or 400.
\<close>

theorem index_payload_not_object:
  assumes "map_of kvs (ustr ''message'') = Some (JDict fs)"
      and "map_of fs (ustr ''data'') = Some d"
      and "b64decode env d = Inr raw"
      and "decode_utf8 env raw = Inr text"
      and "json_loads env (py_strip text) = Inr event_data"
      and "\<not> isinstance_dict event_data"
  shows "index env (JDict kvs) =
           (let msg = quoted (type_name event_data) @ ustr '' object has no attribute ''
                      @ quoted ''get''
            in (Inr (ustr ''Error: '' @ msg, 500),
                [Log ERROR (ustr ''Error processing message: '' @ msg)]))"
proof -
  have "py_get event_data (ustr ''bucket'') =
          Inl (Raised ''AttributeError''
                 (quoted (type_name event_data) @ ustr '' object has no attribute ''
                  @ quoted ''get''))"
    using assms(6) by (cases event_data) simp_all
  then have "index_try env (JDict fs) =
          (Inl (Raised ''AttributeError''
                 (quoted (type_name event_data) @ ustr '' object has no attribute ''
                  @ quoted ''get'')), [])"
    by (simp add: index_try_decoded [OF assms(2-5)])
  then show ?thesis by (simp add: index_with_data [OF assms(1,2)] Let_def)
qed

theorem index_payload_not_object_witness:
  "fst (index (sample_env scenario_objects (Inr [])) (envelope_of ''W10=''))
     = Inr (ustr ''Error: '' @ quoted ''list'' @ ustr '' object has no attribute ''
            @ quoted ''get'', 500)"
proof -
  let ?E = "sample_env scenario_objects (Inr [])"
  have h3: "b64decode ?E (JStr (ustr ''W10='')) = Inr [91, 93]"
  proof -
    have "ref_b64decode (ustr ''W10='') = Some [91, 93]" by code_simp
    then show ?thesis by (simp add: sample_b64decode)
  qed
  have h4: "decode_utf8 ?E [91, 93] = Inr [91, 93]"
    by (simp add: sample_decode_utf8)
  have h5: "json_loads ?E (py_strip [91, 93]) = Inr (JList [])"
  proof -
    have "ref_json_loads [91, 93] = Some (JList [])" by code_simp
    then show ?thesis by (simp add: sample_json_loads py_strip_def)
  qed
  have h6: "\<not> isinstance_dict (JList [])" by simp
  show ?thesis
    using index_payload_not_object [OF envelope_message message_data h3 h4 h5 h6]
    by (simp add: envelope_of_def Let_def)
qed


end
